theory Spec2Isabelle
  imports Main
begin

section \<open>Values, errors and the observable world\<close>

text \<open>
  The script \<^verbatim>\<open>scripts.v2/publish.js\<close> and the module \<^verbatim>\<open>utils.js\<close> it requires talk to
  four outside parties: the clock, the HTTPS stack, the blob store and the local file
  system.  Every interaction is recorded as an \<open>event\<close> in the trace of a \<open>world\<close>; what
  the outside answers is a parameter of the model.  Strings are lists of bytes; JavaScript
  strings and buffers are both modelled so.
\<close>

text \<open>
  A thrown or rejected JavaScript value with the two fields the script reads or writes:
  \<^verbatim>\<open>code\<close> (absent on a plain \<^verbatim>\<open>Error\<close>) and \<^verbatim>\<open>message\<close>.
\<close>

datatype js_error = JsError (code: "string option") (message: string)

text \<open>\<^verbatim>\<open>Error(msg)\<close> and \<^verbatim>\<open>new Error(msg)\<close>: an error with a message and no code.\<close>

definition Error :: "string \<Rightarrow> js_error" where
  "Error msg = JsError None msg"

text \<open>
  What the content-type registry (\<^verbatim>\<open>mime-types\<close>) hands back: a string, or one of the
  JavaScript values that stand for "nothing".
\<close>

datatype js_value = JString string | JFalse | JNull | JUndefined

text \<open>\<^verbatim>\<open>v != null\<close>: loose inequality, false exactly for \<^verbatim>\<open>null\<close> and \<^verbatim>\<open>undefined\<close>.\<close>

fun loose_ne_null :: "js_value \<Rightarrow> bool" where
  "loose_ne_null JNull = False"
| "loose_ne_null JUndefined = False"
| "loose_ne_null (JString s) = True"
| "loose_ne_null JFalse = True"

text \<open>\<^verbatim>\<open>${v}\<close> inside a template literal.\<close>

fun template :: "js_value \<Rightarrow> string" where
  "template (JString s) = s"
| "template JFalse = ''false''"
| "template JNull = ''null''"
| "template JUndefined = ''undefined''"

text \<open>JavaScript truthiness: of the values above only a non-empty string is truthy.\<close>

fun truthy :: "js_value \<Rightarrow> bool" where
  "truthy (JString s) = (s \<noteq> [])"
| "truthy JFalse = False"
| "truthy JNull = False"
| "truthy JUndefined = False"

text \<open>An optional string argument (\<^verbatim>\<open>undefined\<close> when absent) used as a condition.\<close>

fun truthy_arg :: "string option \<Rightarrow> bool" where
  "truthy_arg None = False"
| "truthy_arg (Some s) = (s \<noteq> [])"

text \<open>The \<^verbatim>\<open>options\<close> of \<^verbatim>\<open>https.request\<close>; \<open>http_method\<close> is its key \<^verbatim>\<open>method\<close>.\<close>

record request_options =
  port :: nat
  http_method :: string
  headers :: "(string \<times> string) list"

datatype event =
    ClockRead
  | HttpsRequest string request_options
  | ReqWrite string
  | ReqEnd
  | NewBlobServiceClient string
  | GetContainerClient string
  | Mkdir string
  | ListBlobsFlat
  | DownloadToFile string string
  | ReadDirectory string
  | UploadFile string string js_value
  | DeleteBlob string

text \<open>The events that go over the network.\<close>

fun is_network_call :: "event \<Rightarrow> bool" where
  "is_network_call (HttpsRequest u opts) = True"
| "is_network_call (ReqWrite b) = True"
| "is_network_call ReqEnd = True"
| "is_network_call ListBlobsFlat = True"
| "is_network_call (DownloadToFile n p) = True"
| "is_network_call (UploadFile k f c) = True"
| "is_network_call (DeleteBlob n) = True"
| "is_network_call ClockRead = False"
| "is_network_call (NewBlobServiceClient u) = False"
| "is_network_call (GetContainerClient c) = False"
| "is_network_call (Mkdir p) = False"
| "is_network_call (ReadDirectory p) = False"

text \<open>
  The world: the current instant in milliseconds since 1970-01-01T00:00:00Z (the
  resolution of \<^verbatim>\<open>moment()\<close>) and the interactions so far.
\<close>

record world =
  now :: nat
  trace :: "event list"

definition emit :: "event \<Rightarrow> world \<Rightarrow> world" where
  "emit e w = w\<lparr>trace := trace w @ [e]\<rparr>"

section \<open>Decimal numbers and zero filling\<close>

definition digit_char :: "nat \<Rightarrow> char" where
  "digit_char d = ''0123456789'' ! (d mod 10)"

text \<open>A number inside a template literal or a \<^verbatim>\<open>moment\<close> field: decimal, no leading zero.\<close>

function decimal :: "nat \<Rightarrow> string" where
  "decimal n = (if n < 10 then [digit_char n] else decimal (n div 10) @ [digit_char (n mod 10)])"
  by pat_completeness auto
termination
  by (relation "measure id") auto

declare decimal.simps [simp del]

text \<open>\<^verbatim>\<open>zeroFill(number, targetLength)\<close> of \<^verbatim>\<open>moment\<close>: pads on the left, never truncates.\<close>

definition zeroFill :: "nat \<Rightarrow> nat \<Rightarrow> string" where
  "zeroFill n w = replicate (w - length (decimal n)) (CHR ''0'') @ decimal n"

section \<open>UTC calendar fields of an instant\<close>

definition is_leap :: "nat \<Rightarrow> bool" where
  "is_leap y = ((y mod 4 = 0 \<and> y mod 100 \<noteq> 0) \<or> y mod 400 = 0)"

definition year_len :: "nat \<Rightarrow> nat" where
  "year_len y = (if is_leap y then 366 else 365)"

text \<open>From a year and a day count relative to its 1 January to the year holding that day.\<close>

function year_walk :: "nat \<Rightarrow> nat \<Rightarrow> nat \<times> nat" where
  "year_walk y d = (if d < year_len y then (y, d) else year_walk (Suc y) (d - year_len y))"
  by pat_completeness auto
termination
  by (relation "measure snd") (auto simp: year_len_def)

declare year_walk.simps [simp del]

definition month_lengths :: "nat \<Rightarrow> nat list" where
  "month_lengths y = [31, if is_leap y then 29 else 28, 31, 30, 31, 30, 31, 31, 30, 31, 30, 31]"

fun month_walk :: "nat list \<Rightarrow> nat \<Rightarrow> nat \<Rightarrow> nat \<times> nat" where
  "month_walk [] m d = (m, d)"
| "month_walk (l # ls) m d = (if d < l then (m, d) else month_walk ls (Suc m) (d - l))"

record utc_fields =
  year :: nat
  month :: nat
  date :: nat
  hour :: nat
  minute :: nat
  second :: nat
  millisecond :: nat

definition utc :: "nat \<Rightarrow> utc_fields" where
  "utc t =
    (let (y, doy) = year_walk 1970 (t div 86400000);
         (m, dom) = month_walk (month_lengths y) 1 doy
     in \<lparr>year = y, month = m, date = dom + 1,
         hour = (t div 3600000) mod 24, minute = (t div 60000) mod 60,
         second = (t div 1000) mod 60, millisecond = t mod 1000\<rparr>)"



section \<open>The format string of the expiry\<close>

text \<open>
  The tokens of \<^verbatim>\<open>moment\<close>'s \<^verbatim>\<open>format\<close> that the script uses; a bracketed part and
  any other character are literal text.
\<close>

datatype format_token = YYYY | MM | DD | HH | Tmm | Tss | SSSSSSS | Lit string

fun format_one :: "utc_fields \<Rightarrow> format_token \<Rightarrow> string" where
  "format_one f YYYY = zeroFill (year f) 4"
| "format_one f MM = zeroFill (month f) 2"
| "format_one f DD = zeroFill (date f) 2"
| "format_one f HH = zeroFill (hour f) 2"
| "format_one f Tmm = zeroFill (minute f) 2"
| "format_one f Tss = zeroFill (second f) 2"
| "format_one f SSSSSSS = zeroFill (millisecond f * 10000) 7"
| "format_one f (Lit s) = s"

definition format :: "format_token list \<Rightarrow> nat \<Rightarrow> string" where
  "format toks t = concat (map (format_one (utc t)) toks)"

text \<open>\<^verbatim>\<open>YYYY-MM-DD[T]HH:mm:ss.SSSSSSS[Z]\<close>\<close>

definition expiry_format :: "format_token list" where
  "expiry_format =
    [YYYY, Lit ''-'', MM, Lit ''-'', DD, Lit ''T'', HH, Lit '':'', Tmm, Lit '':'', Tss,
     Lit ''.'', SSSSSSS, Lit ''Z'']"

section \<open>Token provider\<close>

text \<open>
  \<^verbatim>\<open>crypto.createHmac('sha512', key).update(data).digest('base64')\<close> is the parameter
  \<open>hmac\<close>, taking the key and the data.
\<close>

type_synonym hmac_sha512_base64 = "string \<Rightarrow> string \<Rightarrow> string"

text \<open>\<^verbatim>\<open>generateSASToken(id, key, expiresIn = 3600)\<close>; an absent third argument is \<open>None\<close>.\<close>

definition generateSASToken ::
  "hmac_sha512_base64 \<Rightarrow> world \<Rightarrow> string \<Rightarrow> string \<Rightarrow> nat option \<Rightarrow> world \<times> string" where
  "generateSASToken hmac w ident key expiresIn_arg =
    (let expiresIn = (case expiresIn_arg of None \<Rightarrow> 3600 | Some n \<Rightarrow> n);
         w' = emit ClockRead w;
         expiry = now w + expiresIn * 1000;
         expiryString = format expiry_format expiry;
         dataToSign = ident @ [CHR 0x0A] @ expiryString;
         signedData = hmac key dataToSign
     in (w', ''SharedAccessSignature uid='' @ ident @ ''&ex='' @ expiryString
               @ ''&sn='' @ signedData))"

text \<open>\<^verbatim>\<open>getTokenOrThrow(token, id, key)\<close>; a throw is \<open>Inl\<close>.\<close>

definition getTokenOrThrow ::
  "hmac_sha512_base64 \<Rightarrow> world \<Rightarrow> string option \<Rightarrow> string option \<Rightarrow> string option
    \<Rightarrow> world \<times> (js_error + string)" where
  "getTokenOrThrow hmac w token ident key =
    (if truthy_arg token then (w, Inr (the token))
     else if truthy_arg ident \<and> truthy_arg key then
       (let (w', t) = generateSASToken hmac w (the ident) (the key) None in (w', Inr t))
     else (w, Inl (Error ''You need to specify either: token or id AND key'')))"

definition MissingCredential :: js_error where
  "MissingCredential = Error ''You need to specify either: token or id AND key''"



section \<open>Signed HTTP client\<close>

text \<open>
  What the HTTPS stack does with one request.  \<open>TransportFailure e\<close>: the request emits
  \<^verbatim>\<open>error\<close> with \<open>e\<close> and no response arrives.  \<open>Response\<close>: a response arrives whole, with
  its status code, its status message and the chunks of its body, each chunk the bytes of
  one \<^verbatim>\<open>data\<close> event.  \<open>ResponseAborted\<close>: the head of a response and some chunks arrive
  and then the connection is lost with the error given; this is reported on the response
  (\<^verbatim>\<open>aborted\<close>, and \<^verbatim>\<open>error\<close> for a listener), the response never emits \<^verbatim>\<open>end\<close>, and
  the request emits no \<^verbatim>\<open>error\<close>.
\<close>

datatype http_exchange =
    TransportFailure js_error
  | Response nat string "string list"
  | ResponseAborted nat string "string list" js_error

type_synonym https_stack = "string \<Rightarrow> request_options \<Rightarrow> string option \<Rightarrow> http_exchange"

text \<open>
  \<^verbatim>\<open>JSON.parse\<close> is a parameter: \<open>Inr\<close> the parsed value, \<open>Inl\<close> the \<^verbatim>\<open>SyntaxError\<close> it
  throws.
\<close>

type_synonym 'j json_parser = "string \<Rightarrow> js_error + 'j"

text \<open>
  The text a chunk becomes when \<^verbatim>\<open>data += chunk\<close> converts it to a string is a parameter
  as well; every chunk is decoded on its own.
\<close>

type_synonym chunk_decoder = "string \<Rightarrow> string"

text \<open>\<^verbatim>\<open>let data = ''\<close> and, for every \<^verbatim>\<open>data\<close> event in turn, \<^verbatim>\<open>data += chunk\<close>.\<close>

definition received_data :: "chunk_decoder \<Rightarrow> string list \<Rightarrow> string" where
  "received_data toString chunks = foldl (\<lambda>data chunk. data @ toString chunk) [] chunks"

datatype 'j payload = Parsed 'j | Literal string

text \<open>
  How the promise of \<^verbatim>\<open>request\<close> ends: resolved; rejected; never settled because the
  \<^verbatim>\<open>end\<close> handler threw (the exception leaves the event callback uncaught); or never
  settled because neither the \<^verbatim>\<open>end\<close> handler nor the request's \<^verbatim>\<open>error\<close> handler is
  ever called.
\<close>

datatype 'j promise = Resolved "'j payload" | Rejected js_error | Uncaught js_error | Pending

definition startsWith :: "string \<Rightarrow> string \<Rightarrow> bool" where
  "startsWith s p = (take (length p) s = p)"

text \<open>The \<^verbatim>\<open>end\<close> handler of the response: the \<^verbatim>\<open>switch\<close> on the status code.\<close>

definition response_end ::
  "'j json_parser \<Rightarrow> string \<Rightarrow> nat \<Rightarrow> string \<Rightarrow> string \<Rightarrow> 'j promise" where
  "response_end JSON_parse url statusCode statusMessage data =
    (if statusCode = 200 \<or> statusCode = 201 then
       (if startsWith data ''{'' then
          (case JSON_parse data of Inr j \<Rightarrow> Resolved (Parsed j) | Inl e \<Rightarrow> Uncaught e)
        else Resolved (Literal data))
     else if statusCode = 404 then
       Rejected (JsError (Some ''NotFound'') (''Resource not found: '' @ url))
     else if statusCode = 401 then
       Rejected (JsError (Some ''Unauthorized'')
         ''Unauthorized. Make sure you correctly specified management API access token before running the script.'')
     else if statusCode = 403 then
       Rejected (JsError (Some ''Forbidden'')
         ''Looks like you are not allowed to perform this operation. Please check with your administrator.'')
     else
       Rejected (JsError (Some ''UnhandledError'')
         (''Could not complete request to '' @ url @ ''. Status: '' @ decimal statusCode
           @ '' '' @ statusMessage)))"

text \<open>The headers and options \<^verbatim>\<open>request\<close> builds before it calls \<^verbatim>\<open>https.request\<close>.\<close>

definition request_options_for :: "string \<Rightarrow> string \<Rightarrow> string option \<Rightarrow> request_options" where
  "request_options_for meth accessToken body =
    (let headers0 = [(''If-Match'', ''*''), (''Content-Type'', ''application/json''),
                     (''Authorization'', accessToken)];
         hdrs = (if truthy_arg body
                 then headers0 @ [(''Content-Length'', decimal (length (the body)))]
                 else headers0)
     in \<lparr>port = 443, http_method = meth, headers = hdrs\<rparr>)"

text \<open>
  \<^verbatim>\<open>request(method, url, accessToken, body)\<close>; an absent body is \<open>None\<close>.  The only
  listeners are \<^verbatim>\<open>data\<close> and \<^verbatim>\<open>end\<close> on the response and \<^verbatim>\<open>error\<close> on the request.
\<close>

definition request ::
  "'j json_parser \<Rightarrow> chunk_decoder \<Rightarrow> https_stack \<Rightarrow> world \<Rightarrow> string \<Rightarrow> string \<Rightarrow> string
    \<Rightarrow> string option \<Rightarrow> world \<times> 'j promise" where
  "request JSON_parse toString https w meth url accessToken body =
    (let options = request_options_for meth accessToken body;
         w1 = emit (HttpsRequest url options) w;
         w2 = (if truthy_arg body then emit (ReqWrite (the body)) w1 else w1);
         w3 = emit ReqEnd w2
     in (w3, case https url options body of
               TransportFailure e \<Rightarrow> Rejected e
             | Response statusCode statusMessage chunks \<Rightarrow>
                 response_end JSON_parse url statusCode statusMessage
                   (received_data toString chunks)
             | ResponseAborted statusCode statusMessage chunks e \<Rightarrow> Pending))"

fun is_https_request :: "event \<Rightarrow> bool" where
  "is_https_request (HttpsRequest u opts) = True"
| "is_https_request e = False"

text \<open>The events a step added to the trace of the world it started in.\<close>

definition new_events :: "world \<Rightarrow> world \<Rightarrow> event list" where
  "new_events w w' = drop (length (trace w)) (trace w')"

section \<open>Blob synchronisation\<close>

definition blobStorageContainer :: string where
  "blobStorageContainer = ''content''"

text \<open>
  \<^verbatim>\<open>s.replace(pat, rep)\<close> with a string pattern: only the first occurrence is replaced.
  The script's replacement is always the empty string, which has no \<^verbatim>\<open>$\<close> patterns.
\<close>

fun js_replace :: "string \<Rightarrow> string \<Rightarrow> string \<Rightarrow> string" where
  "js_replace pat rep [] = (if pat = [] then rep else [])"
| "js_replace pat rep (c # cs) =
    (if take (length pat) (c # cs) = pat then rep @ drop (length pat) (c # cs)
     else c # js_replace pat rep cs)"

text \<open>\<^verbatim>\<open>s.split(sep)\<close> for a one-character separator; the result is never empty.\<close>

fun split_on :: "char \<Rightarrow> string \<Rightarrow> string list" where
  "split_on sep [] = [[]]"
| "split_on sep (c # cs) =
    (if c = sep then [] # split_on sep cs
     else (case split_on sep cs of [] \<Rightarrow> [[c]] | x # xs \<Rightarrow> (c # x) # xs))"

text \<open>\<^verbatim>\<open>s.lastIndexOf(c)\<close>: \<open>-1\<close> when absent.\<close>

fun lastIndexOf :: "string \<Rightarrow> char \<Rightarrow> int" where
  "lastIndexOf [] c = -1"
| "lastIndexOf (x # xs) c =
    (let r = lastIndexOf xs c in if 0 \<le> r then r + 1 else if x = c then 0 else -1)"

text \<open>\<^verbatim>\<open>s.substring(0, k)\<close>: a negative end counts as 0.\<close>

definition substring0 :: "string \<Rightarrow> int \<Rightarrow> string" where
  "substring0 s k = take (nat k) s"

text \<open>\<^verbatim>\<open>a || b\<close>\<close>

definition js_or :: "js_value \<Rightarrow> js_value \<Rightarrow> js_value" where
  "js_or a b = (if truthy a then a else b)"

record blob =
  name :: string
  contentType :: string

text \<open>The entries of a directory; a directory entry carries its own entries.\<close>

datatype fs_node = File string | Directory string "fs_node list"

text \<open>\<^verbatim>\<open>listFilesInDirectory(dir)\<close>, over the entries \<^verbatim>\<open>readdirSync(dir)\<close> returns.\<close>

fun listFilesInDirectory :: "string \<Rightarrow> fs_node list \<Rightarrow> string list" where
  "listFilesInDirectory dir [] = []"
| "listFilesInDirectory dir (File file # rest) =
    (dir @ ''/'' @ file) # listFilesInDirectory dir rest"
| "listFilesInDirectory dir (Directory file sub # rest) =
    listFilesInDirectory (dir @ ''/'' @ file) sub @ listFilesInDirectory dir rest"

text \<open>
  Whether an interaction fails, given the interactions before it: \<open>Some\<close> the error it
  throws, \<open>None\<close> when it succeeds.
\<close>

type_synonym failures = "event list \<Rightarrow> event \<Rightarrow> js_error option"

type_synonym 'a io = "world \<times> (js_error + 'a)"

definition perform :: "failures \<Rightarrow> event \<Rightarrow> world \<Rightarrow> unit io" where
  "perform fails e w =
    (emit e w, case fails (trace w) e of None \<Rightarrow> Inr () | Some err \<Rightarrow> Inl err)"

text \<open>Sequencing inside a \<^verbatim>\<open>try\<close> block: a throw skips what follows.\<close>

definition and_then :: "'a io \<Rightarrow> ('a \<Rightarrow> world \<Rightarrow> 'b io) \<Rightarrow> 'b io" where
  "and_then r k = (case r of (w, Inl e) \<Rightarrow> (w, Inl e) | (w, Inr v) \<Rightarrow> k v w)"

text \<open>\<^verbatim>\<open>catch (error) { throw new Error(`<prefix>${error.message}`) }\<close>\<close>

definition rethrow :: "string \<Rightarrow> 'a io \<Rightarrow> 'a io" where
  "rethrow prefix r =
    (case r of (w, Inl e) \<Rightarrow> (w, Inl (Error (prefix @ message e))) | (w, Inr v) \<Rightarrow> (w, Inr v))"

text \<open>
  The registry \<^verbatim>\<open>mime-types\<close> is a pair of parameters: \<open>mime_extension\<close> maps a content
  type to what \<^verbatim>\<open>mime.extension\<close> returns, \<open>mime_lookup\<close> a file name to what
  \<^verbatim>\<open>mime.lookup\<close> returns.  The package returns \<^verbatim>\<open>false\<close> when it has no answer.
\<close>

type_synonym registry = "string \<Rightarrow> js_value"

definition pathToFile :: "registry \<Rightarrow> string \<Rightarrow> blob \<Rightarrow> string" where
  "pathToFile mime_extension snapshotMediaFolder b =
    (let extension = mime_extension (contentType b)
     in if loose_ne_null extension
        then snapshotMediaFolder @ ''/'' @ name b @ ''.'' @ template extension
        else snapshotMediaFolder @ ''/'' @ name b)"

definition folderPath :: "string \<Rightarrow> string" where
  "folderPath p = substring0 p (lastIndexOf p (CHR ''/''))"

text \<open>
  The body of the \<^verbatim>\<open>for await\<close> loop of \<^verbatim>\<open>downloadBlobs\<close>.  \<open>Mkdir p\<close> stands for
  \<^verbatim>\<open>fs.promises.mkdir(path.resolve(p), { recursive: true })\<close>.
\<close>

fun download_loop :: "failures \<Rightarrow> registry \<Rightarrow> string \<Rightarrow> blob list \<Rightarrow> world \<Rightarrow> unit io" where
  "download_loop fails mime_extension root [] w = (w, Inr ())"
| "download_loop fails mime_extension root (b # bs) w =
    (let p = pathToFile mime_extension root b
     in and_then (perform fails (Mkdir (folderPath p)) w) (\<lambda>_ w1.
        and_then (perform fails (DownloadToFile (name b) p) w1) (\<lambda>_ w2.
        download_loop fails mime_extension root bs w2)))"

text \<open>
  \<^verbatim>\<open>downloadBlobs(blobStorageUrl, snapshotMediaFolder)\<close>; \<open>blobs\<close> is what
  \<^verbatim>\<open>listBlobsFlat()\<close> enumerates.
\<close>

definition downloadBlobs ::
  "failures \<Rightarrow> registry \<Rightarrow> blob list \<Rightarrow> world \<Rightarrow> string \<Rightarrow> string \<Rightarrow> unit io" where
  "downloadBlobs fails mime_extension blobs w blobStorageUrl snapshotMediaFolder =
    rethrow ''Unable to download media files. ''
     (and_then (perform fails
          (NewBlobServiceClient (js_replace (''/'' @ blobStorageContainer) [] blobStorageUrl)) w)
        (\<lambda>_ w1.
      and_then (perform fails (GetContainerClient blobStorageContainer) w1) (\<lambda>_ w2.
      and_then (perform fails (Mkdir snapshotMediaFolder) w2) (\<lambda>_ w3.
      and_then (perform fails ListBlobsFlat w3) (\<lambda>_ w4.
      download_loop fails mime_extension snapshotMediaFolder blobs w4)))))"

definition blobKey :: "string \<Rightarrow> string \<Rightarrow> string" where
  "blobKey localMediaFolder fileName =
    (case split_on (CHR ''.'') (js_replace (localMediaFolder @ ''/'') [] fileName) of
       [] \<Rightarrow> ''undefined'' | k # _ \<Rightarrow> k)"

definition uploadContentType :: "registry \<Rightarrow> string \<Rightarrow> js_value" where
  "uploadContentType mime_lookup fileName =
    js_or (mime_lookup fileName) (JString ''application/octet-stream'')"

fun upload_loop :: "failures \<Rightarrow> registry \<Rightarrow> string \<Rightarrow> string list \<Rightarrow> world \<Rightarrow> unit io" where
  "upload_loop fails mime_lookup root [] w = (w, Inr ())"
| "upload_loop fails mime_lookup root (fileName # rest) w =
    and_then (perform fails
        (UploadFile (blobKey root fileName) fileName (uploadContentType mime_lookup fileName)) w)
      (\<lambda>_ w1. upload_loop fails mime_lookup root rest w1)"

text \<open>
  \<^verbatim>\<open>uploadBlobs(blobStorageUrl, localMediaFolder)\<close>; \<open>entries\<close> is the content of the
  local folder, \<open>ReadDirectory\<close> the reading of it.
\<close>

definition uploadBlobs ::
  "failures \<Rightarrow> registry \<Rightarrow> fs_node list \<Rightarrow> world \<Rightarrow> string \<Rightarrow> string \<Rightarrow> unit io" where
  "uploadBlobs fails mime_lookup entries w blobStorageUrl localMediaFolder =
    rethrow ''Unable to upload media files. ''
     (and_then (perform fails
          (NewBlobServiceClient (js_replace (''/'' @ blobStorageContainer) [] blobStorageUrl)) w)
        (\<lambda>_ w1.
      and_then (perform fails (GetContainerClient blobStorageContainer) w1) (\<lambda>_ w2.
      and_then (perform fails (ReadDirectory localMediaFolder) w2) (\<lambda>_ w3.
      upload_loop fails mime_lookup localMediaFolder
        (listFilesInDirectory localMediaFolder entries) w3))))"

fun delete_loop :: "failures \<Rightarrow> blob list \<Rightarrow> world \<Rightarrow> unit io" where
  "delete_loop fails [] w = (w, Inr ())"
| "delete_loop fails (b # bs) w =
    and_then (perform fails (DeleteBlob (name b)) w) (\<lambda>_ w1. delete_loop fails bs w1)"

text \<open>\<^verbatim>\<open>deleteBlobs(blobStorageUrl)\<close>\<close>

definition deleteBlobs :: "failures \<Rightarrow> blob list \<Rightarrow> world \<Rightarrow> string \<Rightarrow> unit io" where
  "deleteBlobs fails blobs w blobStorageUrl =
    rethrow ''Unable to delete media files. ''
     (and_then (perform fails
          (NewBlobServiceClient (js_replace (''/'' @ blobStorageContainer) [] blobStorageUrl)) w)
        (\<lambda>_ w1.
      and_then (perform fails (GetContainerClient blobStorageContainer) w1) (\<lambda>_ w2.
      and_then (perform fails ListBlobsFlat w2) (\<lambda>_ w3.
      delete_loop fails blobs w3))))"

section \<open>Sequential runs\<close>

text \<open>
  The reference behaviour the bulk operations are compared with: perform a list of
  interactions in order and stop at the first one that fails.  \<open>first_failure\<close> finds the
  position of that interaction and its error.
\<close>

fun first_failure :: "failures \<Rightarrow> event list \<Rightarrow> event list \<Rightarrow> (nat \<times> js_error) option" where
  "first_failure fails h [] = None"
| "first_failure fails h (e # es) =
    (case fails h e of
       Some err \<Rightarrow> Some (0, err)
     | None \<Rightarrow> map_option (\<lambda>(i, err). (Suc i, err)) (first_failure fails (h @ [e]) es))"

definition surface :: "string \<Rightarrow> failures \<Rightarrow> world \<Rightarrow> event list \<Rightarrow> unit io" where
  "surface prefix fails w plan =
    (case first_failure fails (trace w) plan of
       None \<Rightarrow> (w\<lparr>trace := trace w @ plan\<rparr>, Inr ())
     | Some (i, cause) \<Rightarrow>
         (w\<lparr>trace := trace w @ take (Suc i) plan\<rparr>, Inl (Error (prefix @ message cause))))"

fun run :: "failures \<Rightarrow> event list \<Rightarrow> world \<Rightarrow> unit io" where
  "run fails [] w = (w, Inr ())"
| "run fails (e # es) w = and_then (perform fails e w) (\<lambda>_ w1. run fails es w1)"

text \<open>The interactions of each bulk operation when nothing fails.\<close>

definition blobServiceUrl :: "string \<Rightarrow> string" where
  "blobServiceUrl blobStorageUrl = js_replace ''/content'' [] blobStorageUrl"

definition download_events :: "registry \<Rightarrow> string \<Rightarrow> string \<Rightarrow> blob list \<Rightarrow> event list" where
  "download_events mime_extension blobStorageUrl root blobs =
    [NewBlobServiceClient (blobServiceUrl blobStorageUrl), GetContainerClient ''content'',
     Mkdir root, ListBlobsFlat]
    @ concat (map (\<lambda>b. [Mkdir (folderPath (pathToFile mime_extension root b)),
                         DownloadToFile (name b) (pathToFile mime_extension root b)]) blobs)"

definition upload_events :: "registry \<Rightarrow> string \<Rightarrow> string \<Rightarrow> fs_node list \<Rightarrow> event list" where
  "upload_events mime_lookup blobStorageUrl root entries =
    [NewBlobServiceClient (blobServiceUrl blobStorageUrl), GetContainerClient ''content'',
     ReadDirectory root]
    @ map (\<lambda>f. UploadFile (blobKey root f) f (uploadContentType mime_lookup f))
        (listFilesInDirectory root entries)"

definition delete_events :: "string \<Rightarrow> blob list \<Rightarrow> event list" where
  "delete_events blobStorageUrl blobs =
    [NewBlobServiceClient (blobServiceUrl blobStorageUrl), GetContainerClient ''content'',
     ListBlobsFlat]
    @ map (\<lambda>b. DeleteBlob (name b)) blobs"

text \<open>Where a pattern occurs in a string.\<close>

definition occurs_at :: "string \<Rightarrow> string \<Rightarrow> nat \<Rightarrow> bool" where
  "occurs_at pat s i = (take (length pat) (drop i s) = pat)"

section \<open>Concrete parameters for the examples\<close>

text \<open>A stand-in for the keyed hash in the worked examples; any function would do.\<close>

definition example_hmac :: hmac_sha512_base64 where
  "example_hmac key data = ''c2lnbmVk''"

text \<open>An environment in which nothing fails, and one in which one interaction fails.\<close>

definition no_failure :: failures where
  "no_failure h e = None"

definition fail_on :: "event \<Rightarrow> js_error \<Rightarrow> failures" where
  "fail_on bad cause h e = (if e = bad then Some cause else None)"

text \<open>
  A registry that knows one content type: \<^verbatim>\<open>image/png\<close> with the extension \<^verbatim>\<open>png\<close>.
  For everything else it answers \<^verbatim>\<open>false\<close>, as \<^verbatim>\<open>mime-types\<close> does.
\<close>

definition endsWith :: "string \<Rightarrow> string \<Rightarrow> bool" where
  "endsWith s p = (length p \<le> length s \<and> drop (length s - length p) s = p)"

definition example_extension :: registry where
  "example_extension ct = (if ct = ''image/png'' then JString ''png'' else JFalse)"

definition example_lookup :: registry where
  "example_lookup fileName = (if endsWith fileName ''.png'' then JString ''image/png'' else JFalse)"

text \<open>
  A stand-in for \<^verbatim>\<open>JSON.parse\<close> that accepts the empty object only; the decoding of
  chunks of ASCII bytes, which leaves them as they are; and three HTTPS stacks: one
  answering 200 with a body that opens a brace and is not JSON, one whose request fails
  to connect, one that loses the connection after the head and the first byte of a
  response.
\<close>

definition example_JSON_parse :: "(string \<times> string) list json_parser" where
  "example_JSON_parse s =
    (if s = ''{}'' then Inr [] else Inl (JsError None ''Unexpected token in JSON''))"

definition ascii_toString :: chunk_decoder where
  "ascii_toString chunk = chunk"

definition example_https_malformed :: https_stack where
  "example_https_malformed url opts body = Response 200 ''OK'' [''{oo'', ''ps'']"

definition example_https_reset :: https_stack where
  "example_https_reset url opts body = TransportFailure (JsError (Some ''ECONNRESET'') ''socket hang up'')"

definition example_https_aborted :: https_stack where
  "example_https_aborted url opts body =
    ResponseAborted 200 ''OK'' [''O''] (JsError (Some ''ECONNRESET'') ''aborted'')"

section \<open>Facts about decimal numbers and zero filling\<close>










section \<open>Facts about the calendar and the expiry format\<close>





















section \<open>Token provider: claims\<close>

lemma replicate_numeral_unfold: "replicate (numeral k) x = x # replicate (pred_numeral k) x"
  by (simp add: numeral_eq_Suc)

lemmas format_eval =
  format_def expiry_format_def utc_def year_walk.simps year_len_def is_leap_def
  month_lengths_def zeroFill_def decimal.simps digit_char_def replicate_numeral_unfold

lemma emit_trace: "trace (emit e w) = trace w @ [e]" "now (emit e w) = now w"
  by (simp_all add: emit_def)



text \<open>
  Claim C5.  \<^verbatim>\<open>getTokenOrThrow\<close> returns a non-empty explicit token unchanged; without one,
  when identifier and key are both non-empty, it returns the derived credential; otherwise
  it throws the missing-credential error and leaves the world as it was.  On no path does it
  make a network call.
\<close>

theorem getTokenOrThrow_resolution:
  "(token = Some t \<and> t \<noteq> [] \<longrightarrow> getTokenOrThrow hmac w token ident key = (w, Inr t))
   \<and> (\<not> truthy_arg token \<and> ident = Some i \<and> i \<noteq> [] \<and> key = Some k \<and> k \<noteq> [] \<longrightarrow>
        getTokenOrThrow hmac w token ident key =
          (emit ClockRead w, Inr (snd (generateSASToken hmac w i k None))))
   \<and> (\<not> truthy_arg token \<and> \<not> (truthy_arg ident \<and> truthy_arg key) \<longrightarrow>
        getTokenOrThrow hmac w token ident key = (w, Inl MissingCredential)
        \<and> new_events w (fst (getTokenOrThrow hmac w token ident key)) = [])
   \<and> \<not> list_ex is_network_call (new_events w (fst (getTokenOrThrow hmac w token ident key)))"
  by (auto simp: getTokenOrThrow_def generateSASToken_def Let_def MissingCredential_def
      new_events_def emit_trace)

theorem getTokenOrThrow_resolution_witness:
  "getTokenOrThrow example_hmac \<lparr>now = 0, trace = []\<rparr> (Some ''tok'') None None
     = (\<lparr>now = 0, trace = []\<rparr>, Inr ''tok'')
   \<and> getTokenOrThrow example_hmac \<lparr>now = 0, trace = []\<rparr> (Some []) (Some ''integration'') (Some ''secret'')
     = (\<lparr>now = 0, trace = [ClockRead]\<rparr>,
        Inr ''SharedAccessSignature uid=integration&ex=1970-01-01T01:00:00.0000000Z&sn=c2lnbmVk'')
   \<and> getTokenOrThrow example_hmac \<lparr>now = 0, trace = []\<rparr> None (Some ''integration'') None
     = (\<lparr>now = 0, trace = []\<rparr>, Inl (JsError None ''You need to specify either: token or id AND key''))
   \<and> new_events \<lparr>now = 0, trace = []\<rparr>
        (fst (getTokenOrThrow example_hmac \<lparr>now = 0, trace = []\<rparr> None (Some ''integration'') None)) = []"
proof -
  have ex: "format expiry_format 3600000 = ''1970-01-01T01:00:00.0000000Z''"
    by (simp add: format_eval)
  have gen: "snd (generateSASToken example_hmac \<lparr>now = 0, trace = []\<rparr> ''integration'' ''secret'' None)
     = ''SharedAccessSignature uid=integration&ex=1970-01-01T01:00:00.0000000Z&sn=c2lnbmVk''"
    by (simp add: generateSASToken_def Let_def ex example_hmac_def)
  have em: "emit ClockRead \<lparr>now = 0, trace = []\<rparr> = \<lparr>now = 0, trace = [ClockRead]\<rparr>"
    by (simp add: emit_def)
  show ?thesis
    using getTokenOrThrow_resolution [where token = "Some ''tok''" and t = "''tok''"
        and hmac = example_hmac and w = "\<lparr>now = 0, trace = []\<rparr>" and ident = None
        and key = None]
      getTokenOrThrow_resolution [where token = "Some []" and hmac = example_hmac
        and w = "\<lparr>now = 0, trace = []\<rparr>" and ident = "Some ''integration''"
        and i = "''integration''" and key = "Some ''secret''" and k = "''secret''"]
      getTokenOrThrow_resolution [where token = None and hmac = example_hmac
        and w = "\<lparr>now = 0, trace = []\<rparr>" and ident = "Some ''integration''"
        and key = None]
    by (simp add: gen em MissingCredential_def Error_def new_events_def)
qed

text \<open>
  Claim C8.  The derived credential depends on the world only through the clock: two calls
  with the same identifier, key and expiry window that read the same instant return the
  same string, whatever else differs between the two worlds.
\<close>

theorem generateSASToken_deterministic:
  assumes "now w1 = now w2"
  shows "snd (generateSASToken hmac w1 ident key expiresIn_arg) =
         snd (generateSASToken hmac w2 ident key expiresIn_arg)
       \<and> snd (getTokenOrThrow hmac w1 token ident_arg key_arg) =
         snd (getTokenOrThrow hmac w2 token ident_arg key_arg)"
  using assms by (simp add: generateSASToken_def getTokenOrThrow_def Let_def)

theorem generateSASToken_deterministic_witness:
  "now \<lparr>now = 1793592000123, trace = []\<rparr> =
     now (fst (generateSASToken example_hmac \<lparr>now = 1793592000123, trace = []\<rparr> ''integration'' ''secret'' None))
   \<and> snd (generateSASToken example_hmac \<lparr>now = 1793592000123, trace = []\<rparr> ''integration'' ''secret'' None) =
     snd (generateSASToken example_hmac
       (fst (generateSASToken example_hmac \<lparr>now = 1793592000123, trace = []\<rparr> ''integration'' ''secret'' None))
       ''integration'' ''secret'' None)"
proof -
  let ?w = "\<lparr>now = 1793592000123, trace = []\<rparr>"
  let ?w' = "fst (generateSASToken example_hmac ?w ''integration'' ''secret'' None)"
  have n: "now ?w = now ?w'" by (simp add: generateSASToken_def Let_def emit_def)
  from generateSASToken_deterministic [OF n, of example_hmac "''integration''" "''secret''" None]
  show ?thesis using n by blast
qed


section \<open>Signed HTTP client: claims\<close>

lemma request_result:
  "snd (request JSON_parse toString https w meth url accessToken body) =
    (case https url (request_options_for meth accessToken body) body of
       TransportFailure e \<Rightarrow> Rejected e
     | Response statusCode statusMessage chunks \<Rightarrow>
         response_end JSON_parse url statusCode statusMessage (received_data toString chunks)
     | ResponseAborted statusCode statusMessage chunks e \<Rightarrow> Pending)"
  by (simp add: request_def Let_def)

lemma request_events:
  "new_events w (fst (request JSON_parse toString https w meth url accessToken body)) =
    HttpsRequest url (request_options_for meth accessToken body)
      # (if truthy_arg body then [ReqWrite (the body)] else []) @ [ReqEnd]"
  by (simp add: request_def Let_def new_events_def emit_trace)

text \<open>
  Claim C2, at the input where the code departs from it.  A response with status 200 or
  201 whose body starts with \<open>{\<close> and is not well-formed JSON makes \<^verbatim>\<open>JSON.parse\<close> throw
  inside the \<^verbatim>\<open>end\<close> handler: the promise is neither resolved nor rejected.
\<close>

theorem request_malformed_json_uncaught:
  assumes "https url (request_options_for meth accessToken body) body =
             Response statusCode statusMessage chunks"
    and "statusCode = 200 \<or> statusCode = 201"
    and "startsWith (received_data toString chunks) ''{''"
    and "JSON_parse (received_data toString chunks) = Inl e"
  shows "snd (request JSON_parse toString https w meth url accessToken body) = Uncaught e"
  using assms by (auto simp: request_result response_end_def)

theorem request_malformed_json_uncaught_witness:
  "snd (request example_JSON_parse ascii_toString example_https_malformed \<lparr>now = 0, trace = []\<rparr>
         ''POST'' ''https://portal.example/publish'' ''SharedAccessSignature t'' None)
     = Uncaught (JsError None ''Unexpected token in JSON'')"
proof (rule request_malformed_json_uncaught [where https = example_https_malformed
      and statusCode = 200 and statusMessage = "''OK''" and chunks = "[''{oo'', ''ps'']"])
  show "example_https_malformed ''https://portal.example/publish''
          (request_options_for ''POST'' ''SharedAccessSignature t'' None) None
        = Response 200 ''OK'' [''{oo'', ''ps'']"
    by (simp add: example_https_malformed_def)
  show "(200::nat) = 200 \<or> (200::nat) = 201" by simp
  show "startsWith (received_data ascii_toString [''{oo'', ''ps'']) ''{''"
    by (simp add: startsWith_def received_data_def ascii_toString_def)
  show "example_JSON_parse (received_data ascii_toString [''{oo'', ''ps''])
          = Inl (JsError None ''Unexpected token in JSON'')"
    by (simp add: example_JSON_parse_def received_data_def ascii_toString_def)
qed

text \<open>
  Claim C9, as the code has it.  When the request emits its \<^verbatim>\<open>error\<close> event (a transport
  failure before a response arrives), \<^verbatim>\<open>request\<close> rejects with that very error, unchanged
  and unwrapped, and it has issued exactly one request: there is no retry.
\<close>

theorem request_transport_failure:
  assumes "https url (request_options_for meth accessToken body) body = TransportFailure e"
  shows "snd (request JSON_parse toString https w meth url accessToken body) = Rejected e
       \<and> filter is_https_request
            (new_events w (fst (request JSON_parse toString https w meth url accessToken body)))
          = [HttpsRequest url (request_options_for meth accessToken body)]"
  using assms by (simp add: request_result request_events)

theorem request_transport_failure_witness:
  "snd (request example_JSON_parse ascii_toString example_https_reset \<lparr>now = 0, trace = []\<rparr>
         ''POST'' ''https://portal.example/publish'' ''SharedAccessSignature t'' None)
     = Rejected (JsError (Some ''ECONNRESET'') ''socket hang up'')
   \<and> filter is_https_request
        (new_events \<lparr>now = 0, trace = []\<rparr>
          (fst (request example_JSON_parse ascii_toString example_https_reset
             \<lparr>now = 0, trace = []\<rparr> ''POST''
             ''https://portal.example/publish'' ''SharedAccessSignature t'' None)))
      = [HttpsRequest ''https://portal.example/publish''
           \<lparr>port = 443, http_method = ''POST'',
            headers = [(''If-Match'', ''*''), (''Content-Type'', ''application/json''),
                       (''Authorization'', ''SharedAccessSignature t'')]\<rparr>]"
proof -
  have "example_https_reset ''https://portal.example/publish''
          (request_options_for ''POST'' ''SharedAccessSignature t'' None) None
        = TransportFailure (JsError (Some ''ECONNRESET'') ''socket hang up'')"
    by (simp add: example_https_reset_def)
  then show ?thesis
    using request_transport_failure [where https = example_https_reset
        and url = "''https://portal.example/publish''" and meth = "''POST''"
        and accessToken = "''SharedAccessSignature t''" and body = None
        and e = "JsError (Some ''ECONNRESET'') ''socket hang up''"
        and JSON_parse = example_JSON_parse and toString = ascii_toString
        and w = "\<lparr>now = 0, trace = []\<rparr>"]
    by (simp add: request_options_for_def)
qed

text \<open>
  A connection that is reset after the head of the response has arrived is a transport
  failure which \<^verbatim>\<open>request\<close> does not turn into a rejection: only the request has an
  \<^verbatim>\<open>error\<close> listener, the response never emits \<^verbatim>\<open>end\<close>, and the promise stays pending.
  And where \<^verbatim>\<open>request\<close> does reject, the value is the error of the HTTPS stack itself, with
  that error's own code.
\<close>

theorem request_aborted_response_counterexample:
  "example_https_aborted ''https://portal.example/publish''
      (request_options_for ''POST'' ''SharedAccessSignature t'' None) None
     = ResponseAborted 200 ''OK'' [''O''] (JsError (Some ''ECONNRESET'') ''aborted'')
   \<and> snd (request example_JSON_parse ascii_toString example_https_aborted
         \<lparr>now = 0, trace = []\<rparr> ''POST'' ''https://portal.example/publish''
         ''SharedAccessSignature t'' None) = Pending
   \<and> snd (request example_JSON_parse ascii_toString example_https_reset
         \<lparr>now = 0, trace = []\<rparr> ''POST'' ''https://portal.example/publish''
         ''SharedAccessSignature t'' None)
       = Rejected (JsError (Some ''ECONNRESET'') ''socket hang up'')"
  by (simp add: request_result example_https_aborted_def example_https_reset_def)


section \<open>Bulk operations as sequential runs\<close>

lemma run_outcome:
  "run fails es w =
    (case first_failure fails (trace w) es of
       None \<Rightarrow> (w\<lparr>trace := trace w @ es\<rparr>, Inr ())
     | Some (i, err) \<Rightarrow> (w\<lparr>trace := trace w @ take (Suc i) es\<rparr>, Inl err))"
proof (induction es arbitrary: w)
  case Nil
  show ?case by simp
next
  case (Cons e es)
  show ?case
  proof (cases "fails (trace w) e")
    case (Some err)
    then show ?thesis by (simp add: perform_def and_then_def emit_def)
  next
    case None
    then have "run fails (e # es) w = run fails es (emit e w)"
      by (simp add: perform_def and_then_def)
    also have "\<dots> =
      (case first_failure fails (trace w @ [e]) es of
         None \<Rightarrow> (w\<lparr>trace := trace w @ e # es\<rparr>, Inr ())
       | Some (i, err) \<Rightarrow> (w\<lparr>trace := trace w @ e # take (Suc i) es\<rparr>, Inl err))"
      by (simp add: Cons.IH emit_def split: option.splits prod.splits)
    finally show ?thesis using None
      by (simp split: option.splits prod.splits)
  qed
qed

lemma rethrow_run: "rethrow prefix (run fails es w) = surface prefix fails w es"
  by (simp add: run_outcome rethrow_def surface_def split: option.splits prod.splits)

lemma first_failure_None:
  "first_failure fails h es = None \<longleftrightarrow> (\<forall>j<length es. fails (h @ take j es) (es ! j) = None)"
proof (induction es arbitrary: h)
  case Nil
  show ?case by simp
next
  case (Cons e es)
  show ?case
    by (auto simp: Cons.IH less_Suc_eq_0_disj split: option.splits)
qed

lemma first_failure_Some:
  "first_failure fails h es = Some (i, err) \<longleftrightarrow>
    i < length es \<and> fails (h @ take i es) (es ! i) = Some err
    \<and> (\<forall>j<i. fails (h @ take j es) (es ! j) = None)"
proof (induction es arbitrary: h i)
  case Nil
  show ?case by simp
next
  case (Cons e es)
  show ?case
  proof (cases "fails h e")
    case (Some err')
    then show ?thesis by (cases i) auto
  next
    case None
    show ?thesis
    proof (cases i)
      case 0
      with None show ?thesis by (auto split: option.splits)
    next
      case (Suc k)
      with None show ?thesis
        by (auto simp: Cons.IH less_Suc_eq_0_disj split: option.splits)
    qed
  qed
qed

lemma run_Cons: "run fails (e # es) = (\<lambda>w. and_then (perform fails e w) (\<lambda>_. run fails es))"
  by (rule ext) simp

lemma download_loop_run:
  "download_loop fails mime_extension root blobs =
    run fails (concat (map (\<lambda>b. [Mkdir (folderPath (pathToFile mime_extension root b)),
                 DownloadToFile (name b) (pathToFile mime_extension root b)]) blobs))"
proof (induction blobs)
  case Nil
  show ?case by (rule ext) simp
next
  case (Cons b blobs)
  show ?case by (rule ext) (simp add: Cons.IH Let_def run_Cons)
qed

lemma upload_loop_run:
  "upload_loop fails mime_lookup root files =
    run fails (map (\<lambda>f. UploadFile (blobKey root f) f (uploadContentType mime_lookup f)) files)"
proof (induction files)
  case Nil
  show ?case by (rule ext) simp
next
  case (Cons f files)
  show ?case by (rule ext) (simp add: Cons.IH run_Cons)
qed

lemma delete_loop_run:
  "delete_loop fails blobs = run fails (map (\<lambda>b. DeleteBlob (name b)) blobs)"
proof (induction blobs)
  case Nil
  show ?case by (rule ext) simp
next
  case (Cons b blobs)
  show ?case by (rule ext) (simp add: Cons.IH run_Cons)
qed

lemma downloadBlobs_run:
  "downloadBlobs fails mime_extension blobs w url root =
    rethrow ''Unable to download media files. ''
      (run fails (download_events mime_extension url root blobs) w)"
  by (simp add: downloadBlobs_def download_events_def download_loop_run blobServiceUrl_def
      blobStorageContainer_def run_Cons)

lemma uploadBlobs_run:
  "uploadBlobs fails mime_lookup entries w url root =
    rethrow ''Unable to upload media files. ''
      (run fails (upload_events mime_lookup url root entries) w)"
  by (simp add: uploadBlobs_def upload_events_def upload_loop_run blobServiceUrl_def
      blobStorageContainer_def run_Cons)

lemma deleteBlobs_run:
  "deleteBlobs fails blobs w url =
    rethrow ''Unable to delete media files. '' (run fails (delete_events url blobs) w)"
  by (simp add: deleteBlobs_def delete_events_def delete_loop_run blobServiceUrl_def
      blobStorageContainer_def run_Cons)


section \<open>String helpers of the blob mapping\<close>

lemma js_replace_prefix: "js_replace pat rep (pat @ s) = rep @ s"
proof (cases "pat @ s")
  case Nil
  then show ?thesis by simp
next
  case (Cons a list)
  have t: "take (length pat) (a # list) = pat" and d: "drop (length pat) (a # list) = s"
    using Cons [symmetric] by simp_all
  show ?thesis unfolding Cons by (simp add: t d)
qed

lemma occurs_at_Suc: "occurs_at pat (x # s) (Suc j) = occurs_at pat s j"
  by (simp add: occurs_at_def)

lemma js_replace_first:
  assumes "pat \<noteq> []" and "\<forall>j<length pre. \<not> occurs_at pat (pre @ pat @ post) j"
  shows "js_replace pat rep (pre @ pat @ post) = pre @ rep @ post"
  using assms(2)
proof (induction pre)
  case Nil
  show ?case using js_replace_prefix [of pat rep post] by simp
next
  case (Cons x pre)
  from Cons.prems have "\<not> occurs_at pat (x # pre @ pat @ post) 0" by auto
  then have no: "take (length pat) (x # pre @ pat @ post) \<noteq> pat"
    by (simp add: occurs_at_def)
  have "\<forall>j<length pre. \<not> occurs_at pat (pre @ pat @ post) j"
  proof (intro allI impI)
    fix j assume "j < length pre"
    then have "\<not> occurs_at pat ((x # pre) @ pat @ post) (Suc j)" using Cons.prems by auto
    then show "\<not> occurs_at pat (pre @ pat @ post) j" by (simp add: occurs_at_Suc)
  qed
  then have "js_replace pat rep (pre @ pat @ post) = pre @ rep @ post" by (rule Cons.IH)
  with no show ?case by simp
qed

lemma lastIndexOf_range: "lastIndexOf s c = - 1 \<or> 0 \<le> lastIndexOf s c"
  by (induction s) (auto simp: Let_def)

lemma lastIndexOf_append:
  "lastIndexOf (xs @ ys) c =
    (if 0 \<le> lastIndexOf ys c then int (length xs) + lastIndexOf ys c else lastIndexOf xs c)"
proof (induction xs)
  case Nil
  show ?case using lastIndexOf_range [of ys c] by auto
next
  case (Cons x xs)
  show ?case using lastIndexOf_range [of ys c] lastIndexOf_range [of xs c]
    by (auto simp: Cons.IH Let_def)
qed

lemma split_on_nonempty: "split_on sep s \<noteq> []"
  by (induction s) (auto split: list.splits)

lemma split_on_first:
  "(case split_on sep s of [] \<Rightarrow> d | k # ks \<Rightarrow> k) = takeWhile (\<lambda>c. c \<noteq> sep) s"
  using split_on_nonempty [of sep]
  by (induction s) (auto split: list.splits)

lemma blobKey_relative:
  "blobKey root (root @ ''/'' @ rel) = takeWhile (\<lambda>c. c \<noteq> CHR ''.'') rel"
  using js_replace_prefix [of "root @ ''/''" "[]" rel]
  by (simp add: blobKey_def split_on_first)

lemma surface_no_failure:
  "surface prefix no_failure w plan = (w\<lparr>trace := trace w @ plan\<rparr>, Inr ())"
proof -
  have "first_failure no_failure (trace w) plan = None"
    by (simp add: first_failure_None no_failure_def)
  then show ?thesis by (simp add: surface_def)
qed

lemma surface_events:
  "new_events w (fst (surface prefix fails w plan)) =
    (case first_failure fails (trace w) plan of
       None \<Rightarrow> plan | Some (i, cause) \<Rightarrow> take (Suc i) plan)"
  by (simp add: surface_def new_events_def split: option.splits prod.splits)

lemma surface_first_event:
  "take 1 (new_events w (fst (surface prefix fails w plan))) = take 1 plan"
  by (simp add: surface_events min_def split: option.splits prod.splits)

lemma surface_second_event:
  assumes "fails (trace w) e = None"
  shows "take 2 (new_events w (fst (surface prefix fails w (e # plan)))) = take 2 (e # plan)"
proof (cases "first_failure fails (trace w) (e # plan)")
  case None
  then show ?thesis by (simp add: surface_events)
next
  case (Some r)
  obtain i cause where r: "r = (i, cause)" by (cases r)
  from Some r assms have "i \<noteq> 0" by (auto split: option.splits)
  then have "min 2 (Suc i) = 2" by simp
  with Some r show ?thesis by (simp add: surface_events del: first_failure.simps)
qed

lemma downloadBlobs_surface:
  "downloadBlobs fails mime_extension blobs w url root =
    surface ''Unable to download media files. '' fails w
      (download_events mime_extension url root blobs)"
  by (simp only: downloadBlobs_run rethrow_run)

lemma uploadBlobs_surface:
  "uploadBlobs fails mime_lookup entries w url root =
    surface ''Unable to upload media files. '' fails w
      (upload_events mime_lookup url root entries)"
  by (simp only: uploadBlobs_run rethrow_run)

lemma deleteBlobs_surface:
  "deleteBlobs fails blobs w url =
    surface ''Unable to delete media files. '' fails w (delete_events url blobs)"
  by (simp only: deleteBlobs_run rethrow_run)


section \<open>Blob synchronisation: claims\<close>

lemma folderPath_nested: "folderPath (root @ ''/a/b'' @ ext) = root @ ''/a''"
  if "CHR ''/'' \<notin> set ext"
proof -
  have "lastIndexOf ext (CHR ''/'') = - 1"
    using that by (induction ext) (auto simp: Let_def)
  then have "lastIndexOf (''/a/b'' @ ext) (CHR ''/'') = 2"
    by (simp add: Let_def)
  then have "lastIndexOf (root @ ''/a/b'' @ ext) (CHR ''/'') = int (length root) + 2"
    by (simp only: lastIndexOf_append [of root]) simp
  then show ?thesis by (simp add: folderPath_def substring0_def nat_add_distrib)
qed

text \<open>
  Claim C1.  With a registry that maps \<^verbatim>\<open>image/png\<close> to \<^verbatim>\<open>png\<close> and \<^verbatim>\<open>.png\<close> files back to
  \<^verbatim>\<open>image/png\<close>: the blob \<^verbatim>\<open>a/b\<close> of type \<^verbatim>\<open>image/png\<close> is downloaded to
  \<^verbatim>\<open><root>/a/b.png\<close>; listing \<^verbatim>\<open><root>\<close> with that file in it and uploading gives the blob key
  \<^verbatim>\<open>a/b\<close> with content type \<^verbatim>\<open>image/png\<close>.  The key of any listed file is its path below
  the root, cut at the first dot.
\<close>

theorem blob_file_round_trip:
  assumes "mime_extension ''image/png'' = JString ''png''"
    and "mime_lookup (root @ ''/a/b.png'') = JString ''image/png''"
  shows "downloadBlobs no_failure mime_extension [\<lparr>name = ''a/b'', contentType = ''image/png''\<rparr>]
           w url root =
           (w\<lparr>trace := trace w @
               [NewBlobServiceClient (blobServiceUrl url), GetContainerClient ''content'',
                Mkdir root, ListBlobsFlat, Mkdir (root @ ''/a''),
                DownloadToFile ''a/b'' (root @ ''/a/b.png'')]\<rparr>, Inr ())
       \<and> listFilesInDirectory root [Directory ''a'' [File ''b.png'']] = [root @ ''/a/b.png'']
       \<and> uploadBlobs no_failure mime_lookup [Directory ''a'' [File ''b.png'']] w' url root =
           (w'\<lparr>trace := trace w' @
               [NewBlobServiceClient (blobServiceUrl url), GetContainerClient ''content'',
                ReadDirectory root,
                UploadFile ''a/b'' (root @ ''/a/b.png'') (JString ''image/png'')]\<rparr>, Inr ())
       \<and> blobKey root (root @ ''/'' @ rel) = takeWhile (\<lambda>c. c \<noteq> CHR ''.'') rel"
proof (intro conjI)
  have p: "pathToFile mime_extension root \<lparr>name = ''a/b'', contentType = ''image/png''\<rparr>
             = root @ ''/a/b.png''"
    by (simp add: pathToFile_def assms(1))
  have f: "folderPath (root @ ''/a/b.png'') = root @ ''/a''"
    using folderPath_nested [of "''.png''" root] by simp
  show "downloadBlobs no_failure mime_extension [\<lparr>name = ''a/b'', contentType = ''image/png''\<rparr>]
           w url root =
           (w\<lparr>trace := trace w @
               [NewBlobServiceClient (blobServiceUrl url), GetContainerClient ''content'',
                Mkdir root, ListBlobsFlat, Mkdir (root @ ''/a''),
                DownloadToFile ''a/b'' (root @ ''/a/b.png'')]\<rparr>, Inr ())"
    unfolding downloadBlobs_surface surface_no_failure
    by (simp add: download_events_def p f)
  show l: "listFilesInDirectory root [Directory ''a'' [File ''b.png'']] = [root @ ''/a/b.png'']"
    by simp
  have k: "blobKey root (root @ ''/a/b.png'') = ''a/b''"
    using blobKey_relative [of root "''a/b.png''"] by simp
  have c: "uploadContentType mime_lookup (root @ ''/a/b.png'') = JString ''image/png''"
    by (simp add: uploadContentType_def js_or_def assms(2))
  show "uploadBlobs no_failure mime_lookup [Directory ''a'' [File ''b.png'']] w' url root =
           (w'\<lparr>trace := trace w' @
               [NewBlobServiceClient (blobServiceUrl url), GetContainerClient ''content'',
                ReadDirectory root,
                UploadFile ''a/b'' (root @ ''/a/b.png'') (JString ''image/png'')]\<rparr>, Inr ())"
    unfolding uploadBlobs_surface surface_no_failure
    using k c by (simp add: upload_events_def)
  show "blobKey root (root @ ''/'' @ rel) = takeWhile (\<lambda>c. c \<noteq> CHR ''.'') rel"
    by (rule blobKey_relative)
qed

theorem blob_file_round_trip_witness:
  "downloadBlobs no_failure example_extension [\<lparr>name = ''a/b'', contentType = ''image/png''\<rparr>]
     \<lparr>now = 0, trace = []\<rparr> ''https://acct.blob.core.windows.net/content?sv=1'' ''media'' =
     (\<lparr>now = 0, trace =
         [NewBlobServiceClient ''https://acct.blob.core.windows.net?sv=1'',
          GetContainerClient ''content'', Mkdir ''media'', ListBlobsFlat, Mkdir ''media/a'',
          DownloadToFile ''a/b'' ''media/a/b.png'']\<rparr>, Inr ())
   \<and> listFilesInDirectory ''media'' [Directory ''a'' [File ''b.png'']] = [''media/a/b.png'']
   \<and> uploadBlobs no_failure example_lookup [Directory ''a'' [File ''b.png'']]
     \<lparr>now = 0, trace = []\<rparr> ''https://acct.blob.core.windows.net/content?sv=1'' ''media'' =
     (\<lparr>now = 0, trace =
         [NewBlobServiceClient ''https://acct.blob.core.windows.net?sv=1'',
          GetContainerClient ''content'', ReadDirectory ''media'',
          UploadFile ''a/b'' ''media/a/b.png'' (JString ''image/png'')]\<rparr>, Inr ())
   \<and> blobKey ''media'' ''media/a/b.png'' = ''a/b''"
proof -
  have e: "example_extension ''image/png'' = JString ''png''"
    by (simp add: example_extension_def)
  have l: "example_lookup (''media'' @ ''/a/b.png'') = JString ''image/png''"
    by (simp add: example_lookup_def endsWith_def)
  have u: "blobServiceUrl ''https://acct.blob.core.windows.net/content?sv=1''
             = ''https://acct.blob.core.windows.net?sv=1''"
    by (simp add: blobServiceUrl_def)
  from e l show ?thesis
    using blob_file_round_trip [where mime_extension = example_extension
        and mime_lookup = example_lookup and root = "''media''"
        and w = "\<lparr>now = 0, trace = []\<rparr>" and w' = "\<lparr>now = 0, trace = []\<rparr>"
        and url = "''https://acct.blob.core.windows.net/content?sv=1''" and rel = "''a/b.png''"]
    by (simp add: u)
qed

text \<open>
  Claim C4, at the input where the code departs from it.  For a content type the registry
  does not know, \<^verbatim>\<open>mime.extension\<close> answers \<^verbatim>\<open>false\<close>; the test \<^verbatim>\<open>extension != null\<close> lets
  \<^verbatim>\<open>false\<close> through, and the blob \<^verbatim>\<open>a/b\<close> is written to \<^verbatim>\<open>media/a/b.false\<close>.
\<close>

theorem downloadBlobs_unregistered_content_type:
  "downloadBlobs no_failure example_extension
     [\<lparr>name = ''a/b'', contentType = ''application/x-unknown''\<rparr>]
     \<lparr>now = 0, trace = []\<rparr> ''https://acct.blob.core.windows.net/content?sv=1'' ''media'' =
     (\<lparr>now = 0, trace =
         [NewBlobServiceClient ''https://acct.blob.core.windows.net?sv=1'',
          GetContainerClient ''content'', Mkdir ''media'', ListBlobsFlat, Mkdir ''media/a'',
          DownloadToFile ''a/b'' ''media/a/b.false'']\<rparr>, Inr ())"
proof -
  have p: "pathToFile example_extension ''media''
             \<lparr>name = ''a/b'', contentType = ''application/x-unknown''\<rparr> = ''media/a/b.false''"
    by (simp add: pathToFile_def example_extension_def)
  have f: "folderPath ''media/a/b.false'' = ''media/a''"
    using folderPath_nested [of "''.false''" "''media''"] by simp
  have u: "blobServiceUrl ''https://acct.blob.core.windows.net/content?sv=1''
             = ''https://acct.blob.core.windows.net?sv=1''"
    by (simp add: blobServiceUrl_def)
  show ?thesis
    unfolding downloadBlobs_surface surface_no_failure
    by (simp add: download_events_def p f u)
qed

text \<open>
  Claim C7, at the input where the code departs from it.  When the registry answers
  \<^verbatim>\<open>false\<close> for a blob's content type the download path is \<^verbatim>\<open><root>/<name>.false\<close>, not
  \<^verbatim>\<open><root>/<name>\<close>.  The upload half holds: a file for which the registry has no content
  type is uploaded as \<^verbatim>\<open>application/octet-stream\<close>.
\<close>

theorem unknown_content_type_fallback:
  "(mime_extension (contentType b) = JFalse \<longrightarrow>
      pathToFile mime_extension root b = root @ ''/'' @ name b @ ''.false'')
   \<and> (\<not> truthy (mime_lookup fileName) \<longrightarrow>
      uploadContentType mime_lookup fileName = JString ''application/octet-stream'')"
  by (simp add: pathToFile_def uploadContentType_def js_or_def)

theorem unknown_content_type_fallback_witness:
  "example_extension (contentType \<lparr>name = ''a/b'', contentType = ''application/x-unknown''\<rparr>) = JFalse
   \<and> pathToFile example_extension ''media'' \<lparr>name = ''a/b'', contentType = ''application/x-unknown''\<rparr>
       = ''media/a/b.false''
   \<and> \<not> truthy (example_lookup ''media/a/b.dat'')
   \<and> uploadContentType example_lookup ''media/a/b.dat'' = JString ''application/octet-stream''"
  using unknown_content_type_fallback [of example_extension
      "\<lparr>name = ''a/b'', contentType = ''application/x-unknown''\<rparr>" "''media''" example_lookup
      "''media/a/b.dat''"]
  by (simp add: example_extension_def example_lookup_def endsWith_def)


text \<open>
  Claim C6, as the code has it.  Each bulk operation is a sequential run of its
  interactions that stops at the first failing one; it then throws an \<^verbatim>\<open>Error\<close> whose
  message is the operation's own prefix followed by the message of the cause.  Nothing
  after the failing interaction is performed.  Only the message of the cause is kept.
\<close>

theorem bulk_operations_abort_and_wrap:
  "downloadBlobs fails mime_extension blobs w url root =
     surface ''Unable to download media files. '' fails w
       (download_events mime_extension url root blobs)
   \<and> uploadBlobs fails mime_lookup entries w url root =
     surface ''Unable to upload media files. '' fails w
       (upload_events mime_lookup url root entries)
   \<and> deleteBlobs fails blobs w url =
     surface ''Unable to delete media files. '' fails w (delete_events url blobs)
   \<and> ((\<forall>j<length plan. fails (trace w @ take j plan) (plan ! j) = None) \<longrightarrow>
       surface prefix fails w plan = (w\<lparr>trace := trace w @ plan\<rparr>, Inr ()))
   \<and> (i < length plan \<and> fails (trace w @ take i plan) (plan ! i) = Some cause
        \<and> (\<forall>j<i. fails (trace w @ take j plan) (plan ! j) = None) \<longrightarrow>
       surface prefix fails w plan =
         (w\<lparr>trace := trace w @ take (Suc i) plan\<rparr>, Inl (Error (prefix @ message cause))))"
proof (intro conjI impI)
  show "downloadBlobs fails mime_extension blobs w url root =
     surface ''Unable to download media files. '' fails w
       (download_events mime_extension url root blobs)"
    by (rule downloadBlobs_surface)
  show "uploadBlobs fails mime_lookup entries w url root =
     surface ''Unable to upload media files. '' fails w
       (upload_events mime_lookup url root entries)"
    by (rule uploadBlobs_surface)
  show "deleteBlobs fails blobs w url =
     surface ''Unable to delete media files. '' fails w (delete_events url blobs)"
    by (rule deleteBlobs_surface)
next
  assume "\<forall>j<length plan. fails (trace w @ take j plan) (plan ! j) = None"
  then have "first_failure fails (trace w) plan = None"
    by (simp add: first_failure_None)
  then show "surface prefix fails w plan = (w\<lparr>trace := trace w @ plan\<rparr>, Inr ())"
    by (simp add: surface_def)
next
  assume "i < length plan \<and> fails (trace w @ take i plan) (plan ! i) = Some cause
        \<and> (\<forall>j<i. fails (trace w @ take j plan) (plan ! j) = None)"
  then have "first_failure fails (trace w) plan = Some (i, cause)"
    by (simp add: first_failure_Some)
  then show "surface prefix fails w plan =
         (w\<lparr>trace := trace w @ take (Suc i) plan\<rparr>, Inl (Error (prefix @ message cause)))"
    by (simp add: surface_def)
qed

theorem bulk_operations_abort_and_wrap_witness:
  "deleteBlobs (fail_on (DeleteBlob ''b'') (JsError (Some ''BlobNotFound'') ''gone''))
     [\<lparr>name = ''a'', contentType = ''image/png''\<rparr>, \<lparr>name = ''b'', contentType = ''image/png''\<rparr>,
      \<lparr>name = ''c'', contentType = ''image/png''\<rparr>]
     \<lparr>now = 0, trace = []\<rparr> ''https://acct.blob.core.windows.net/content?sv=1'' =
     (\<lparr>now = 0, trace =
         [NewBlobServiceClient ''https://acct.blob.core.windows.net?sv=1'',
          GetContainerClient ''content'', ListBlobsFlat, DeleteBlob ''a'', DeleteBlob ''b'']\<rparr>,
      Inl (JsError None ''Unable to delete media files. gone''))"
proof -
  let ?fails = "fail_on (DeleteBlob ''b'') (JsError (Some ''BlobNotFound'') ''gone'')"
  let ?blobs = "[\<lparr>name = ''a'', contentType = ''image/png''\<rparr>,
      \<lparr>name = ''b'', contentType = ''image/png''\<rparr>, \<lparr>name = ''c'', contentType = ''image/png''\<rparr>]"
  let ?url = "''https://acct.blob.core.windows.net/content?sv=1''"
  let ?w = "\<lparr>now = 0, trace = []\<rparr>"
  let ?plan = "[NewBlobServiceClient ''https://acct.blob.core.windows.net?sv=1'',
          GetContainerClient ''content'', ListBlobsFlat, DeleteBlob ''a'', DeleteBlob ''b'',
          DeleteBlob ''c'']"
  have plan: "delete_events ?url ?blobs = ?plan"
    by (simp add: delete_events_def blobServiceUrl_def)
  have before: "\<forall>j<4. ?fails (trace ?w @ take j ?plan) (?plan ! j) = None"
  proof (intro allI impI)
    fix j :: nat
    assume "j < 4"
    then consider "j = 0" | "j = 1" | "j = 2" | "j = 3" by linarith
    then show "?fails (trace ?w @ take j ?plan) (?plan ! j) = None"
      by cases (simp_all add: fail_on_def)
  qed
  have at: "?fails (trace ?w @ take 4 ?plan) (?plan ! 4) = Some (JsError (Some ''BlobNotFound'') ''gone'')"
    by (simp add: fail_on_def)
  from bulk_operations_abort_and_wrap [where fails = ?fails and blobs = ?blobs and w = ?w
      and url = ?url and plan = ?plan and i = 4 and cause = "JsError (Some ''BlobNotFound'') ''gone''"
      and prefix = "''Unable to delete media files. ''"]
  have "deleteBlobs ?fails ?blobs ?w ?url =
          surface ''Unable to delete media files. '' ?fails ?w (delete_events ?url ?blobs)"
    and "4 < length ?plan \<and> ?fails (trace ?w @ take 4 ?plan) (?plan ! 4) =
            Some (JsError (Some ''BlobNotFound'') ''gone'')
          \<and> (\<forall>j<4. ?fails (trace ?w @ take j ?plan) (?plan ! j) = None) \<longrightarrow>
        surface ''Unable to delete media files. '' ?fails ?w ?plan =
          (?w\<lparr>trace := trace ?w @ take (Suc 4) ?plan\<rparr>,
           Inl (Error (''Unable to delete media files. ''
              @ message (JsError (Some ''BlobNotFound'') ''gone''))))"
    by blast+
  with before at plan show ?thesis by (simp add: Error_def)
qed

text \<open>
  Two different causes with the same message surface as the same error: what a bulk
  operation throws does not determine the error that caused it.
\<close>

theorem bulk_error_cause_counterexample:
  "snd (deleteBlobs (fail_on (DeleteBlob ''a'') (JsError (Some ''BlobNotFound'') ''failed''))
         [\<lparr>name = ''a'', contentType = ''image/png''\<rparr>] \<lparr>now = 0, trace = []\<rparr>
         ''https://acct.blob.core.windows.net/content?sv=1'')
     = Inl (JsError None ''Unable to delete media files. failed'')
   \<and> snd (deleteBlobs (fail_on (DeleteBlob ''a'') (JsError (Some ''AuthorizationFailure'') ''failed''))
         [\<lparr>name = ''a'', contentType = ''image/png''\<rparr>] \<lparr>now = 0, trace = []\<rparr>
         ''https://acct.blob.core.windows.net/content?sv=1'')
     = Inl (JsError None ''Unable to delete media files. failed'')
   \<and> JsError (Some ''BlobNotFound'') ''failed'' \<noteq> JsError (Some ''AuthorizationFailure'') ''failed''"
  by (simp add: deleteBlobs_surface surface_def delete_events_def blobServiceUrl_def
      fail_on_def Error_def)

text \<open>
  Claim C10.  All three bulk operations open the blob service at the container URL with
  its first occurrence of \<^verbatim>\<open>/content\<close> deleted (here: the URL is \<open>pre @ ''/content'' @ post\<close>
  and \<^verbatim>\<open>/content\<close> does not occur at any position inside \<open>pre\<close>), and then address the
  container named \<^verbatim>\<open>content\<close>.  When \<^verbatim>\<open>/content\<close> occurs before the container segment, that
  earlier occurrence is the one deleted.
\<close>

theorem blob_service_url_first_occurrence:
  assumes "\<forall>j<length pre. \<not> occurs_at ''/content'' (pre @ ''/content'' @ post) j"
    and "url = pre @ ''/content'' @ post"
  shows "js_replace (''/'' @ blobStorageContainer) [] url = pre @ post
   \<and> take 1 (new_events w (fst (downloadBlobs fails mime_extension blobs w url root)))
       = [NewBlobServiceClient (pre @ post)]
   \<and> take 1 (new_events w (fst (uploadBlobs fails mime_lookup entries w url root)))
       = [NewBlobServiceClient (pre @ post)]
   \<and> take 1 (new_events w (fst (deleteBlobs fails blobs w url)))
       = [NewBlobServiceClient (pre @ post)]
   \<and> (fails (trace w) (NewBlobServiceClient (pre @ post)) = None \<longrightarrow>
        take 2 (new_events w (fst (downloadBlobs fails mime_extension blobs w url root)))
          = [NewBlobServiceClient (pre @ post), GetContainerClient ''content'']
      \<and> take 2 (new_events w (fst (uploadBlobs fails mime_lookup entries w url root)))
          = [NewBlobServiceClient (pre @ post), GetContainerClient ''content'']
      \<and> take 2 (new_events w (fst (deleteBlobs fails blobs w url)))
          = [NewBlobServiceClient (pre @ post), GetContainerClient ''content''])"
proof -
  have r: "js_replace ''/content'' [] (pre @ ''/content'' @ post) = pre @ post"
    using js_replace_first [of "''/content''" pre post "[]"] assms(1) by simp
  then have u: "blobServiceUrl url = pre @ post"
    by (simp add: blobServiceUrl_def assms(2))
  have d: "download_events mime_extension url root blobs =
      NewBlobServiceClient (pre @ post) # GetContainerClient ''content'' # Mkdir root
        # ListBlobsFlat # concat (map (\<lambda>b. [Mkdir (folderPath (pathToFile mime_extension root b)),
                         DownloadToFile (name b) (pathToFile mime_extension root b)]) blobs)"
    by (simp add: download_events_def u)
  have p: "upload_events mime_lookup url root entries =
      NewBlobServiceClient (pre @ post) # GetContainerClient ''content'' # ReadDirectory root
        # map (\<lambda>f. UploadFile (blobKey root f) f (uploadContentType mime_lookup f))
            (listFilesInDirectory root entries)"
    by (simp add: upload_events_def u)
  have x: "delete_events url blobs =
      NewBlobServiceClient (pre @ post) # GetContainerClient ''content'' # ListBlobsFlat
        # map (\<lambda>b. DeleteBlob (name b)) blobs"
    by (simp add: delete_events_def u)
  show ?thesis
  proof (intro conjI impI)
    show "js_replace (''/'' @ blobStorageContainer) [] url = pre @ post"
      using r by (simp add: blobStorageContainer_def assms(2))
    show "take 1 (new_events w (fst (downloadBlobs fails mime_extension blobs w url root)))
       = [NewBlobServiceClient (pre @ post)]"
      unfolding downloadBlobs_surface surface_first_event d by simp
    show "take 1 (new_events w (fst (uploadBlobs fails mime_lookup entries w url root)))
       = [NewBlobServiceClient (pre @ post)]"
      unfolding uploadBlobs_surface surface_first_event p by simp
    show "take 1 (new_events w (fst (deleteBlobs fails blobs w url)))
       = [NewBlobServiceClient (pre @ post)]"
      unfolding deleteBlobs_surface surface_first_event x by simp
  next
    assume ok: "fails (trace w) (NewBlobServiceClient (pre @ post)) = None"
    note second = surface_second_event [where fails = fails and w = w
        and e = "NewBlobServiceClient (pre @ post)", OF ok]
    show "take 2 (new_events w (fst (downloadBlobs fails mime_extension blobs w url root)))
          = [NewBlobServiceClient (pre @ post), GetContainerClient ''content'']"
      unfolding downloadBlobs_surface d second by simp
    show "take 2 (new_events w (fst (uploadBlobs fails mime_lookup entries w url root)))
          = [NewBlobServiceClient (pre @ post), GetContainerClient ''content'']"
      unfolding uploadBlobs_surface p second by simp
    show "take 2 (new_events w (fst (deleteBlobs fails blobs w url)))
          = [NewBlobServiceClient (pre @ post), GetContainerClient ''content'']"
      unfolding deleteBlobs_surface x second by simp
  qed
qed

theorem blob_service_url_first_occurrence_witness:
  "js_replace (''/'' @ blobStorageContainer) [] ''https://contentmedia.blob.core.windows.net/content?sv=1''
     = ''https:/media.blob.core.windows.net/content?sv=1''
   \<and> take 2 (new_events \<lparr>now = 0, trace = []\<rparr>
        (fst (deleteBlobs no_failure [] \<lparr>now = 0, trace = []\<rparr>
            ''https://contentmedia.blob.core.windows.net/content?sv=1'')))
     = [NewBlobServiceClient ''https:/media.blob.core.windows.net/content?sv=1'',
        GetContainerClient ''content'']"
proof -
  let ?pre = "''https:/''"
  let ?post = "''media.blob.core.windows.net/content?sv=1''"
  have first: "\<forall>j<length ?pre. \<not> occurs_at ''/content'' (?pre @ ''/content'' @ ?post) j"
  proof (intro allI impI)
    fix j :: nat
    assume "j < length ?pre"
    then consider "j = 0" | "j = 1" | "j = 2" | "j = 3" | "j = 4" | "j = 5" | "j = 6"
      by (simp add: less_Suc_eq) linarith
    then show "\<not> occurs_at ''/content'' (?pre @ ''/content'' @ ?post) j"
      by cases (simp_all add: occurs_at_def)
  qed
  have url: "''https://contentmedia.blob.core.windows.net/content?sv=1''
      = ?pre @ ''/content'' @ ?post" by simp
  from blob_service_url_first_occurrence [OF first url, where fails = no_failure
      and w = "\<lparr>now = 0, trace = []\<rparr>" and blobs = "[]"]
  show ?thesis by (simp add: no_failure_def)
qed


end
